theory Spec2Isabelle
  imports Main "HOL-Library.Sublist"
begin

section \<open>Upgrade assistant status: \<^verbatim>\<open>es_migration_apis.ts\<close>\<close>

text \<open>
  A shallow embedding of
  \<^verbatim>\<open>x-pack/plugins/upgrade_assistant/server/lib/es_migration_apis.ts\<close>:
  the three functions \<^verbatim>\<open>getClusterDeprecations\<close>, \<^verbatim>\<open>getCombinedIndexInfos\<close> and
  \<^verbatim>\<open>getUpgradeAssistantStatus\<close>. The collaborators the module imports (the cluster
  client, \<^verbatim>\<open>getDeprecatedApmIndices\<close>, \<^verbatim>\<open>isSystemIndex\<close>, \<^verbatim>\<open>esIndicesStateCheck\<close>)
  are parameters of the model.
\<close>

subsection \<open>Data model\<close>

text \<open>
  Modelled from the spec: the type declarations \<^verbatim>\<open>DeprecationInfo\<close>,
  \<^verbatim>\<open>DeprecationAPIResponse\<close>, \<^verbatim>\<open>EnrichedDeprecationInfo\<close> and
  \<^verbatim>\<open>UpgradeAssistantStatus\<close> are imported by the module and declared elsewhere.
  A raw warning has a \<open>level\<close>, a \<open>message\<close> and source-specific context (the type
  parameter \<open>'c\<close>, field \<open>details\<close>). An enriched warning extends it with the optional
  fields \<open>index\<close>, \<open>reindex\<close>, \<open>needsDefaultFields\<close> and \<open>blockerForReindexing\<close>;
  \<open>None\<close> is JavaScript's \<^verbatim>\<open>undefined\<close>.
\<close>

record 'c DeprecationInfo =
  level :: string
  message :: string
  details :: 'c

record 'c EnrichedDeprecationInfo = "'c DeprecationInfo" +
  index :: "string option"
  reindex :: "bool option"
  needsDefaultFields :: "bool option"
  blockerForReindexing :: "string option"

text \<open>
  Modelled from the spec: the raw response has three cluster-scope warning lists and a
  mapping from index name to a list of warnings. The mapping is a JavaScript object; it
  is an association list in the order in which \<^verbatim>\<open>Object.keys\<close> enumerates it.
\<close>

record 'c DeprecationAPIResponse =
  cluster_settings :: "'c DeprecationInfo list"
  ml_settings :: "'c DeprecationInfo list"
  node_settings :: "'c DeprecationInfo list"
  index_settings :: "(string \<times> 'c DeprecationInfo list) list"

record 'c UpgradeAssistantStatus =
  readyForUpgrade :: bool
  cluster :: "'c EnrichedDeprecationInfo list"
  indices :: "'c EnrichedDeprecationInfo list"

text \<open>
  A rejected promise or a thrown exception is a value: \<open>TypeError\<close> is what reading a
  property of \<^verbatim>\<open>undefined\<close> throws, \<open>Rejected r\<close> is a collaborator's rejection with
  reason \<open>r\<close>.
\<close>

datatype js_error = TypeError | Rejected string

subsection \<open>JavaScript primitives used by the module\<close>

text \<open>
  \<^verbatim>\<open>/pat/.test(s)\<close> for a pattern without metacharacters and without flags: \<open>s\<close> contains
  \<open>pat\<close> as a contiguous substring.
\<close>

definition regexp_test :: "string \<Rightarrow> string \<Rightarrow> bool" where
  "regexp_test pat s = sublist pat s"

text \<open>\<^verbatim>\<open>Object.keys(o)\<close> and \<^verbatim>\<open>o[k]\<close> on an object given by its entries.\<close>

definition object_keys :: "(string \<times> 'v) list \<Rightarrow> string list" where
  "object_keys obj = map fst obj"

definition object_get :: "(string \<times> 'v) list \<Rightarrow> string \<Rightarrow> 'v option" where
  "object_get obj k = map_of obj k"

text \<open>
  A property key that is \<^verbatim>\<open>undefined\<close> is converted to the string \<^verbatim>\<open>"undefined"\<close>
  (\<^verbatim>\<open>indexStates[indexData.index!]\<close>; the non-null assertion \<^verbatim>\<open>!\<close> has no effect at
  run time).
\<close>

definition toPropertyKey :: "string option \<Rightarrow> string" where
  "toPropertyKey k = (case k of None \<Rightarrow> ''undefined'' | Some s \<Rightarrow> s)"

text \<open>
  \<^verbatim>\<open>xs.reduce(f, init)\<close> with a callback that may throw: the first exception ends the
  loop.
\<close>

primrec reduce :: "('b \<Rightarrow> 'a \<Rightarrow> js_error + 'b) \<Rightarrow> 'a list \<Rightarrow> 'b \<Rightarrow> js_error + 'b" where
  "reduce f [] acc = Inr acc"
| "reduce f (x # xs) acc =
     (case f acc x of Inl e \<Rightarrow> Inl e | Inr acc' \<Rightarrow> reduce f xs acc')"

text \<open>
  \<^verbatim>\<open>await Promise.all([p, q])\<close>: the pair of results when both promises are fulfilled,
  the rejection when one is rejected. When both are rejected the first rejection
  observed wins; which one that is, is an input (\<open>secondFirst\<close>).
\<close>

definition promise_all ::
  "bool \<Rightarrow> js_error + 'a \<Rightarrow> js_error + 'b \<Rightarrow> js_error + ('a \<times> 'b)" where
  "promise_all secondFirst p q =
     (case p of
        Inl e1 \<Rightarrow> (case q of Inl e2 \<Rightarrow> Inl (if secondFirst then e2 else e1) | Inr _ \<Rightarrow> Inl e1)
      | Inr x \<Rightarrow> (case q of Inl e2 \<Rightarrow> Inl e2 | Inr y \<Rightarrow> Inr (x, y)))"

subsection \<open>\<^verbatim>\<open>getClusterDeprecations\<close>\<close>

definition getClusterDeprecations ::
  "'c DeprecationAPIResponse \<Rightarrow> bool \<Rightarrow> 'c DeprecationInfo list" where
  "getClusterDeprecations deprecations isCloudEnabled =
     (let combined = (cluster_settings deprecations @ ml_settings deprecations)
                       @ node_settings deprecations
      in if isCloudEnabled
         then filter (\<lambda>d. message d \<noteq> ''Security realm settings structure changed'') combined
         else combined)"

subsection \<open>\<^verbatim>\<open>getCombinedIndexInfos\<close>\<close>

text \<open>
  The set of index names of the application-performance-monitoring warnings
  (\<^verbatim>\<open>apmIndexDeprecations.reduce((acc, dep) => acc.add(dep.index), new Set())\<close>); a
  warning without an index adds \<^verbatim>\<open>undefined\<close>, here \<open>None\<close>.
\<close>

definition apmIndexSet :: "'c EnrichedDeprecationInfo list \<Rightarrow> string option set" where
  "apmIndexSet apmIndexDeprecations =
     foldl (\<lambda>acc dep. insert (index dep) acc) {} apmIndexDeprecations"

text \<open>The object literal built for one raw warning \<open>d\<close> of index \<open>indexName\<close>.\<close>

definition enrich ::
  "string option set \<Rightarrow> string \<Rightarrow> 'c DeprecationInfo \<Rightarrow> 'c EnrichedDeprecationInfo" where
  "enrich apmIndices indexName d =
     \<lparr> level = level d, message = message d, details = details d,
       index = Some indexName,
       reindex = Some (regexp_test ''Index created before'' (message d)
                       \<and> Some indexName \<notin> apmIndices),
       needsDefaultFields =
         Some (regexp_test ''Number of fields exceeds automatic field expansion limit''
                 (message d)),
       blockerForReindexing = None \<rparr>"

text \<open>
  The callback of the \<^verbatim>\<open>reduce\<close>: \<^verbatim>\<open>deprecations.index_settings[indexName].map(...)\<close>
  throws when the object has no such property.
\<close>

definition concatIndexDeprecations ::
  "'c DeprecationAPIResponse \<Rightarrow> string option set \<Rightarrow> 'c EnrichedDeprecationInfo list
     \<Rightarrow> string \<Rightarrow> js_error + 'c EnrichedDeprecationInfo list" where
  "concatIndexDeprecations deprecations apmIndices indexDeprecations indexName =
     (case object_get (index_settings deprecations) indexName of
        None \<Rightarrow> Inl TypeError
      | Some ds \<Rightarrow> Inr (indexDeprecations @ map (enrich apmIndices indexName) ds))"

text \<open>
  The chain up to and including the system-index filter, that is, the merged list
  before \<^verbatim>\<open>.concat(apmIndexDeprecations)\<close>.
\<close>

definition generalIndexInfos ::
  "(string option \<Rightarrow> bool) \<Rightarrow> 'c DeprecationAPIResponse \<Rightarrow> 'c EnrichedDeprecationInfo list
     \<Rightarrow> js_error + 'c EnrichedDeprecationInfo list" where
  "generalIndexInfos isSystemIndex deprecations apmIndexDeprecations =
     (let apmIndices = apmIndexSet apmIndexDeprecations
      in case reduce (concatIndexDeprecations deprecations apmIndices)
                (filter (\<lambda>indexName. Some indexName \<notin> apmIndices)
                   (object_keys (index_settings deprecations))) []
         of Inl e \<Rightarrow> Inl e
          | Inr indexDeprecations \<Rightarrow>
              Inr (filter (\<lambda>deprecation. \<not> isSystemIndex (index deprecation))
                     indexDeprecations))"

definition getCombinedIndexInfos ::
  "(string option \<Rightarrow> bool) \<Rightarrow> 'c DeprecationAPIResponse \<Rightarrow> 'c EnrichedDeprecationInfo list
     \<Rightarrow> js_error + 'c EnrichedDeprecationInfo list" where
  "getCombinedIndexInfos isSystemIndex deprecations apmIndexDeprecations =
     (case generalIndexInfos isSystemIndex deprecations apmIndexDeprecations of
        Inl e \<Rightarrow> Inl e
      | Inr general \<Rightarrow> Inr (general @ apmIndexDeprecations))"

subsection \<open>\<^verbatim>\<open>getUpgradeAssistantStatus\<close>\<close>

text \<open>
  The collaborators. \<open>callAsCurrentUser\<close> is the outcome of the one request the module
  sends (\<^verbatim>\<open>GET /_migration/deprecations\<close>); \<open>getDeprecatedApmIndices\<close> maps the
  configured index patterns to the outcome of the lookup; \<open>esIndicesStateCheck\<close> maps the
  index names it is given to the outcome of the probe, a mapping from index name to
  state; \<open>isSystemIndex\<close> is the system-index predicate. \<open>apmRejectsFirst\<close> says which
  rejection \<^verbatim>\<open>Promise.all\<close> observes first when both of its promises are rejected.
\<close>

record 'c Collaborators =
  callAsCurrentUser :: "js_error + 'c DeprecationAPIResponse"
  getDeprecatedApmIndices :: "string list \<Rightarrow> js_error + 'c EnrichedDeprecationInfo list"
  isSystemIndex :: "string option \<Rightarrow> bool"
  esIndicesStateCheck :: "string option list \<Rightarrow> js_error + (string \<rightharpoonup> string)"
  apmRejectsFirst :: bool

text \<open>The calls to collaborators that one run makes, in program order.\<close>

datatype call =
    TransportRequest string string
  | DeprecatedApmIndices "string list"
  | IndicesStateCheck "string option list"

text \<open>
  A raw warning used where an enriched one is expected (\<open>cluster\<close> in the result): the
  same object, whose optional fields are all absent.
\<close>

definition asEnriched :: "'c DeprecationInfo \<Rightarrow> 'c EnrichedDeprecationInfo" where
  "asEnriched d =
     \<lparr> level = level d, message = message d, details = details d,
       index = None, reindex = None, needsDefaultFields = None,
       blockerForReindexing = None \<rparr>"

text \<open>The body of \<^verbatim>\<open>indices.forEach(indexData => ...)\<close>.\<close>

definition setBlockerForReindexing ::
  "(string \<rightharpoonup> string) \<Rightarrow> 'c EnrichedDeprecationInfo \<Rightarrow> 'c EnrichedDeprecationInfo" where
  "setBlockerForReindexing indexStates indexData =
     indexData\<lparr> blockerForReindexing :=
       (if indexStates (toPropertyKey (index indexData)) = Some ''close''
        then Some ''index-closed'' else None) \<rparr>"

text \<open>Lines 46 to 52: the readiness flag and the returned record.\<close>

definition upgradeStatus ::
  "'c EnrichedDeprecationInfo list \<Rightarrow> 'c EnrichedDeprecationInfo list
     \<Rightarrow> 'c UpgradeAssistantStatus" where
  "upgradeStatus cluster' indices' =
     (let criticalWarnings = filter (\<lambda>d. level d = ''critical'') (cluster' @ indices')
      in \<lparr> readyForUpgrade = (length criticalWarnings = 0),
           cluster = cluster', indices = indices' \<rparr>)"

text \<open>
  The function returns the calls it made together with its outcome. The in-place
  assignment of the \<^verbatim>\<open>forEach\<close> is a \<open>map\<close>: the value assigned depends on the entry's
  \<open>index\<close> only, which the loop does not change.
\<close>

definition getUpgradeAssistantStatus ::
  "'c Collaborators \<Rightarrow> bool \<Rightarrow> string list
     \<Rightarrow> call list \<times> (js_error + 'c UpgradeAssistantStatus)" where
  "getUpgradeAssistantStatus dataClient isCloudEnabled apmIndices =
     (let calls = [TransportRequest ''/_migration/deprecations'' ''GET'',
                   DeprecatedApmIndices apmIndices]
      in case promise_all (apmRejectsFirst dataClient) (callAsCurrentUser dataClient)
                (getDeprecatedApmIndices dataClient apmIndices)
         of Inl e \<Rightarrow> (calls, Inl e)
          | Inr (deprecations, apmIndexDeprecations) \<Rightarrow>
              (let cluster' = map asEnriched (getClusterDeprecations deprecations isCloudEnabled)
               in case getCombinedIndexInfos (isSystemIndex dataClient) deprecations
                         apmIndexDeprecations
                  of Inl e \<Rightarrow> (calls, Inl e)
                   | Inr indices' \<Rightarrow>
                       (let indexNames = map index indices'
                        in if length indexNames \<noteq> 0
                           then (case esIndicesStateCheck dataClient indexNames of
                                   Inl e \<Rightarrow> (calls @ [IndicesStateCheck indexNames], Inl e)
                                 | Inr indexStates \<Rightarrow>
                                     (calls @ [IndicesStateCheck indexNames],
                                      Inr (upgradeStatus cluster'
                                             (map (setBlockerForReindexing indexStates)
                                                indices'))))
                           else (calls, Inr (upgradeStatus cluster' indices')))))"

text \<open>The arguments of the probe's invocations during a run.\<close>

fun probeCalls :: "call list \<Rightarrow> string option list list" where
  "probeCalls [] = []"
| "probeCalls (IndicesStateCheck names # cs) = names # probeCalls cs"
| "probeCalls (_ # cs) = probeCalls cs"

subsection \<open>The merged index list in the specification's words\<close>

text \<open>
  An enriched warning as the specification describes it: the raw warning's fields, the
  index name, \<open>reindex\<close> true iff the message contains "Index created before",
  \<open>needsDefaultFields\<close> true iff it contains "Number of fields exceeds automatic field
  expansion limit". This definition follows the specification, not the code.
\<close>

definition enrichedWarning_spec ::
  "string \<Rightarrow> 'c DeprecationInfo \<Rightarrow> 'c EnrichedDeprecationInfo" where
  "enrichedWarning_spec indexName d =
     \<lparr> level = level d, message = message d, details = details d,
       index = Some indexName,
       reindex = Some (sublist ''Index created before'' (message d)),
       needsDefaultFields =
         Some (sublist ''Number of fields exceeds automatic field expansion limit''
                 (message d)),
       blockerForReindexing = None \<rparr>"

text \<open>
  The merged list as the specification describes it: the entries of \<open>index_settings\<close>
  whose key is not the index of an application-performance-monitoring warning, in key
  order, each with its warnings in their order; then the entries of system indices
  removed; then the application-performance-monitoring warnings appended.
\<close>

definition mergedIndexList_spec ::
  "(string option \<Rightarrow> bool) \<Rightarrow> 'c DeprecationAPIResponse \<Rightarrow> 'c EnrichedDeprecationInfo list
     \<Rightarrow> 'c EnrichedDeprecationInfo list" where
  "mergedIndexList_spec systemIndex deprecations apmWarnings =
     filter (\<lambda>e. \<not> systemIndex (index e))
       (concat (map (\<lambda>(indexName, ds). map (enrichedWarning_spec indexName) ds)
                  (filter (\<lambda>(indexName, ds). Some indexName \<notin> index ` set apmWarnings)
                     (index_settings deprecations))))
     @ apmWarnings"

subsection \<open>A concrete run\<close>

text \<open>
  A response with a cluster warning, a critical node warning and three indices: one
  with two warnings, one system index, and one that the application-performance-monitoring
  lookup reports as well. The lookup's warning arrives with \<open>reindex\<close> set and with a
  blocker already present; the probe reports \<open>idx1\<close> closed and knows no other index.
\<close>

definition rawWarning :: "string \<Rightarrow> string \<Rightarrow> unit DeprecationInfo" where
  "rawWarning lvl msg = \<lparr> level = lvl, message = msg, details = () \<rparr>"

definition startsWithDot :: "string option \<Rightarrow> bool" where
  "startsWithDot k = (case k of Some (c # cs) \<Rightarrow> c = CHR ''.'' | _ \<Rightarrow> False)"

definition exResponse :: "unit DeprecationAPIResponse" where
  "exResponse =
     \<lparr> cluster_settings = [rawWarning ''warning'' ''Security realm settings structure changed''],
       ml_settings = [],
       node_settings = [rawWarning ''critical'' ''Node too old''],
       index_settings =
         [(''idx1'', [rawWarning ''warning'' ''Index created before 7.0'',
                      rawWarning ''warning''
                        ''Number of fields exceeds automatic field expansion limit of 1024'']),
          (''.tasks'', [rawWarning ''critical'' ''Index created before 7.0'']),
          (''apm-7'', [rawWarning ''warning'' ''Index created before 7.0''])] \<rparr>"

definition exApmWarning :: "unit EnrichedDeprecationInfo" where
  "exApmWarning =
     \<lparr> level = ''warning'', message = ''APM index requires conversion to 7.x format'',
       details = (), index = Some ''apm-7'', reindex = Some True,
       needsDefaultFields = None, blockerForReindexing = Some ''index-closed'' \<rparr>"

definition exIndexStates :: "string \<rightharpoonup> string" where
  "exIndexStates = [''idx1'' \<mapsto> ''close'']"

definition exClient :: "unit Collaborators" where
  "exClient =
     \<lparr> callAsCurrentUser = Inr exResponse,
       getDeprecatedApmIndices = (\<lambda>patterns. Inr [exApmWarning]),
       isSystemIndex = startsWithDot,
       esIndicesStateCheck = (\<lambda>names. Inr exIndexStates),
       apmRejectsFirst = False \<rparr>"

text \<open>The entries of the merged list of that run, and the two lists it returns.\<close>

definition exIdx1Reindex :: "unit EnrichedDeprecationInfo" where
  "exIdx1Reindex =
     \<lparr> level = ''warning'', message = ''Index created before 7.0'', details = (),
       index = Some ''idx1'', reindex = Some True, needsDefaultFields = Some False,
       blockerForReindexing = None \<rparr>"

definition exIdx1Fields :: "unit EnrichedDeprecationInfo" where
  "exIdx1Fields =
     \<lparr> level = ''warning'',
       message = ''Number of fields exceeds automatic field expansion limit of 1024'',
       details = (), index = Some ''idx1'', reindex = Some False,
       needsDefaultFields = Some True, blockerForReindexing = None \<rparr>"

definition exCluster :: "unit EnrichedDeprecationInfo list" where
  "exCluster =
     [asEnriched (rawWarning ''warning'' ''Security realm settings structure changed''),
      asEnriched (rawWarning ''critical'' ''Node too old'')]"

definition exIndices :: "unit EnrichedDeprecationInfo list" where
  "exIndices =
     [exIdx1Reindex\<lparr> blockerForReindexing := Some ''index-closed'' \<rparr>,
      exIdx1Fields\<lparr> blockerForReindexing := Some ''index-closed'' \<rparr>,
      exApmWarning\<lparr> blockerForReindexing := None \<rparr>]"

text \<open>A response without warnings, and a lookup that finds nothing.\<close>

definition exEmptyResponse :: "unit DeprecationAPIResponse" where
  "exEmptyResponse =
     \<lparr> cluster_settings = [], ml_settings = [], node_settings = [], index_settings = [] \<rparr>"

definition exNoApm :: "string list \<Rightarrow> js_error + unit EnrichedDeprecationInfo list" where
  "exNoApm patterns = Inr []"

text \<open>A lookup and a probe that are rejected.\<close>

definition exApmFails :: "string list \<Rightarrow> js_error + unit EnrichedDeprecationInfo list" where
  "exApmFails patterns = Inl (Rejected ''index_not_found_exception'')"

definition exProbeFails :: "string option list \<Rightarrow> js_error + (string \<rightharpoonup> string)" where
  "exProbeFails names = Inl (Rejected ''security_exception'')"

text \<open>The two calls every run starts with.\<close>

definition firstCalls :: "string list \<Rightarrow> call list" where
  "firstCalls apmIndices =
     [TransportRequest ''/_migration/deprecations'' ''GET'', DeprecatedApmIndices apmIndices]"

section \<open>Auxiliary facts\<close>

text \<open>The raw warnings of an index; none for a name that is not a key.\<close>

definition rawWarnings :: "'c DeprecationAPIResponse \<Rightarrow> string \<Rightarrow> 'c DeprecationInfo list" where
  "rawWarnings deprecations indexName =
     (case object_get (index_settings deprecations) indexName of None \<Rightarrow> [] | Some ds \<Rightarrow> ds)"

lemma foldl_insert_image:
  "foldl (\<lambda>acc dep. insert (f dep) acc) A xs = A \<union> f ` set xs"
  by (induction xs arbitrary: A) auto

lemma apmIndexSet_image: "apmIndexSet apm = index ` set apm"
  by (simp add: apmIndexSet_def foldl_insert_image)

lemma object_get_key:
  assumes "k \<in> set (object_keys obj)"
  shows "\<exists>v. object_get obj k = Some v"
proof -
  from assms have "k \<in> fst ` set obj" by (simp add: object_keys_def)
  then have "map_of obj k \<noteq> None" by (simp add: map_of_eq_None_iff)
  then show ?thesis by (auto simp: object_get_def)
qed

text \<open>The \<^verbatim>\<open>reduce\<close> over keys of the object never throws, and flattens.\<close>

lemma reduce_concatIndexDeprecations:
  assumes "set ks \<subseteq> set (object_keys (index_settings d))"
  shows "reduce (concatIndexDeprecations d A) ks acc =
           Inr (acc @ concat (map (\<lambda>k. map (enrich A k) (rawWarnings d k)) ks))"
  using assms
proof (induction ks arbitrary: acc)
  case Nil
  show ?case by simp
next
  case (Cons k ks)
  from Cons.prems have "k \<in> set (object_keys (index_settings d))" by simp
  then obtain ds where ds: "object_get (index_settings d) k = Some ds"
    using object_get_key by blast
  from Cons.prems have sub: "set ks \<subseteq> set (object_keys (index_settings d))" by simp
  have step: "concatIndexDeprecations d A acc k = Inr (acc @ map (enrich A k) ds)"
    by (simp add: concatIndexDeprecations_def ds)
  have raw: "rawWarnings d k = ds"
    by (simp add: rawWarnings_def ds)
  show ?case
    by (simp add: step raw Cons.IH [OF sub])
qed

lemma generalIndexInfos_eq:
  "generalIndexInfos sys d apm =
     Inr (filter (\<lambda>e. \<not> sys (index e))
            (concat (map (\<lambda>k. map (enrich (index ` set apm) k) (rawWarnings d k))
                       (filter (\<lambda>k. Some k \<notin> index ` set apm)
                          (object_keys (index_settings d))))))"
proof -
  have "set (filter (\<lambda>k. Some k \<notin> index ` set apm) (object_keys (index_settings d)))
          \<subseteq> set (object_keys (index_settings d))"
    by auto
  from reduce_concatIndexDeprecations [OF this]
  show ?thesis
    by (simp add: generalIndexInfos_def apmIndexSet_image)
qed

lemma getCombinedIndexInfos_eq:
  "getCombinedIndexInfos sys d apm =
     Inr (filter (\<lambda>e. \<not> sys (index e))
            (concat (map (\<lambda>k. map (enrich (index ` set apm) k) (rawWarnings d k))
                       (filter (\<lambda>k. Some k \<notin> index ` set apm)
                          (object_keys (index_settings d)))))
          @ apm)"
  by (simp add: getCombinedIndexInfos_def generalIndexInfos_eq)

section \<open>The cluster deprecation filter\<close>

text \<open>
  C2. \<^verbatim>\<open>getClusterDeprecations\<close> returns the concatenation of the cluster-settings,
  ml-settings and node-settings lists, in that order, when the cloud flag is false.
  When the flag is true it returns that concatenation without the warnings whose
  message is exactly "Security realm settings structure changed": every other warning
  stays, in its place.
\<close>

theorem getClusterDeprecations_concat_filter:
  "getClusterDeprecations deprecations False =
     cluster_settings deprecations @ ml_settings deprecations @ node_settings deprecations
   \<and> getClusterDeprecations deprecations True =
     filter (\<lambda>d. message d \<noteq> ''Security realm settings structure changed'')
       (cluster_settings deprecations @ ml_settings deprecations @ node_settings deprecations)"
  by (simp add: getClusterDeprecations_def)

section \<open>The example run, evaluated\<close>

lemma ex_general:
  "generalIndexInfos startsWithDot exResponse [exApmWarning] = Inr [exIdx1Reindex, exIdx1Fields]"
  by (simp add: generalIndexInfos_def apmIndexSet_def object_keys_def object_get_def
      concatIndexDeprecations_def enrich_def regexp_test_def sublist_code(3) startsWithDot_def
      exResponse_def exApmWarning_def rawWarning_def exIdx1Reindex_def exIdx1Fields_def)

lemma ex_merged:
  "getCombinedIndexInfos startsWithDot exResponse [exApmWarning] =
     Inr [exIdx1Reindex, exIdx1Fields, exApmWarning]"
  by (simp add: getCombinedIndexInfos_def ex_general)

lemma ex_names:
  "map index [exIdx1Reindex, exIdx1Fields, exApmWarning] =
     [Some ''idx1'', Some ''idx1'', Some ''apm-7'']"
  by (simp add: exIdx1Reindex_def exIdx1Fields_def exApmWarning_def)

lemma ex_cluster:
  "map asEnriched (getClusterDeprecations exResponse False) = exCluster"
  by (simp add: getClusterDeprecations_def exResponse_def exCluster_def)

lemma ex_blockers:
  "map (setBlockerForReindexing exIndexStates) [exIdx1Reindex, exIdx1Fields, exApmWarning] =
     exIndices"
  by (simp add: setBlockerForReindexing_def toPropertyKey_def exIndexStates_def exIndices_def
      exIdx1Reindex_def exIdx1Fields_def exApmWarning_def)

lemma ex_run:
  "getUpgradeAssistantStatus exClient False [] =
     (firstCalls [] @ [IndicesStateCheck [Some ''idx1'', Some ''idx1'', Some ''apm-7'']],
      Inr (upgradeStatus exCluster exIndices))"
proof -
  have "promise_all (apmRejectsFirst exClient) (callAsCurrentUser exClient)
          (getDeprecatedApmIndices exClient []) = Inr (exResponse, [exApmWarning])"
    by (simp add: promise_all_def exClient_def)
  moreover have "isSystemIndex exClient = startsWithDot"
    and "esIndicesStateCheck exClient [Some ''idx1'', Some ''idx1'', Some ''apm-7'']
          = Inr exIndexStates"
    by (simp_all add: exClient_def)
  ultimately show ?thesis
    by (simp add: getUpgradeAssistantStatus_def firstCalls_def ex_merged ex_names ex_cluster
        ex_blockers del: list.map)
qed

section \<open>The top-level operation, case by case\<close>

lemma promise_all_fulfilled: "promise_all b (Inr x) (Inr y) = Inr (x, y)"
  by (simp add: promise_all_def)

lemma promise_all_cases:
  "promise_all b p q = Inr r \<Longrightarrow> p = Inr (fst r) \<and> q = Inr (snd r)"
  by (auto simp: promise_all_def split: sum.splits)

text \<open>What a run does once both fetches have succeeded.\<close>

lemma getUpgradeAssistantStatus_fetched:
  assumes "callAsCurrentUser w = Inr d"
    and "getDeprecatedApmIndices w pats = Inr apm"
    and "getCombinedIndexInfos (isSystemIndex w) d apm = Inr merged"
  shows "getUpgradeAssistantStatus w cloud pats =
    (if merged = []
     then (firstCalls pats,
           Inr (upgradeStatus (map asEnriched (getClusterDeprecations d cloud)) merged))
     else (case esIndicesStateCheck w (map index merged) of
             Inl e \<Rightarrow> (firstCalls pats @ [IndicesStateCheck (map index merged)], Inl e)
           | Inr states \<Rightarrow>
               (firstCalls pats @ [IndicesStateCheck (map index merged)],
                Inr (upgradeStatus (map asEnriched (getClusterDeprecations d cloud))
                       (map (setBlockerForReindexing states) merged)))))"
  using assms
  by (simp add: getUpgradeAssistantStatus_def promise_all_fulfilled firstCalls_def Let_def
      split: sum.splits)

lemma getUpgradeAssistantStatus_probed:
  assumes "callAsCurrentUser w = Inr d"
    and "getDeprecatedApmIndices w pats = Inr apm"
    and "getCombinedIndexInfos (isSystemIndex w) d apm = Inr merged"
    and "esIndicesStateCheck w (map index merged) = Inr states"
  shows "snd (getUpgradeAssistantStatus w cloud pats) =
           Inr (upgradeStatus (map asEnriched (getClusterDeprecations d cloud))
                  (map (setBlockerForReindexing states) merged))"
  using assms(4) by (simp add: getUpgradeAssistantStatus_fetched [OF assms(1-3)])

text \<open>Every status that is returned comes out of \<open>upgradeStatus\<close>.\<close>

lemma getUpgradeAssistantStatus_returns:
  assumes "snd (getUpgradeAssistantStatus w cloud pats) = Inr status"
  shows "\<exists>c i. status = upgradeStatus c i"
  using assms
  by (auto simp: getUpgradeAssistantStatus_def Let_def split: sum.splits if_splits prod.splits)

lemma probeCalls_firstCalls: "probeCalls (firstCalls pats @ cs) = probeCalls cs"
  by (simp add: firstCalls_def)

lemma probeCalls_firstCalls_only: "probeCalls (firstCalls pats) = []"
  by (simp add: firstCalls_def)

section \<open>Readiness\<close>

text \<open>
  C1. Whenever \<^verbatim>\<open>getUpgradeAssistantStatus\<close> returns a status, its \<open>readyForUpgrade\<close> is
  true if and only if no entry of \<open>cluster\<close> followed by \<open>indices\<close> has level
  "critical"; in particular it is true when both lists are empty.
\<close>

theorem readyForUpgrade_iff_no_critical:
  assumes "snd (getUpgradeAssistantStatus w cloud pats) = Inr status"
  shows "readyForUpgrade status =
           (\<forall>e \<in> set (cluster status @ indices status). level e \<noteq> ''critical'')
         \<and> (cluster status = [] \<and> indices status = [] \<longrightarrow> readyForUpgrade status)"
proof -
  from getUpgradeAssistantStatus_returns [OF assms]
  obtain c i where st: "status = upgradeStatus c i" by blast
  have "(filter (\<lambda>d. level d = ''critical'') (c @ i) = []) =
          (\<forall>e \<in> set (c @ i). level e \<noteq> ''critical'')"
    by (simp only: filter_empty_conv)
  then have "readyForUpgrade status =
           (\<forall>e \<in> set (cluster status @ indices status). level e \<noteq> ''critical'')"
    by (simp add: st upgradeStatus_def Let_def)
  moreover have "cluster status = [] \<and> indices status = [] \<longrightarrow> readyForUpgrade status"
    by (simp add: st upgradeStatus_def Let_def)
  ultimately show ?thesis by blast
qed

text \<open>
  In the example run the node warning is critical, so the cluster is not ready; with
  the warning lists of the response emptied, it is.
\<close>

theorem readyForUpgrade_iff_no_critical_witness:
  "snd (getUpgradeAssistantStatus exClient False []) = Inr (upgradeStatus exCluster exIndices)
   \<and> \<not> readyForUpgrade (upgradeStatus exCluster exIndices)
   \<and> level (asEnriched (rawWarning ''critical'' ''Node too old'')) = ''critical''
   \<and> snd (getUpgradeAssistantStatus
            (exClient\<lparr> callAsCurrentUser := Inr exEmptyResponse,
                       getDeprecatedApmIndices := exNoApm \<rparr>) True [])
       = Inr (upgradeStatus [] [])
   \<and> readyForUpgrade (upgradeStatus [] ([] :: unit EnrichedDeprecationInfo list))"
proof -
  have run: "snd (getUpgradeAssistantStatus exClient False []) =
               Inr (upgradeStatus exCluster exIndices)"
    by (simp add: ex_run)
  have crit: "asEnriched (rawWarning ''critical'' ''Node too old'')
                \<in> set (cluster (upgradeStatus exCluster exIndices)
                        @ indices (upgradeStatus exCluster exIndices))"
    by (simp add: upgradeStatus_def exCluster_def)
  have lvl: "level (asEnriched (rawWarning ''critical'' ''Node too old'')) = ''critical''"
    by (simp add: asEnriched_def rawWarning_def)
  from readyForUpgrade_iff_no_critical [OF run] crit lvl
  have notReady: "\<not> readyForUpgrade (upgradeStatus exCluster exIndices)"
    by blast
  have run0: "snd (getUpgradeAssistantStatus
                     (exClient\<lparr> callAsCurrentUser := Inr exEmptyResponse,
                                getDeprecatedApmIndices := exNoApm \<rparr>) True [])
                = Inr (upgradeStatus [] [])"
    by (simp add: getUpgradeAssistantStatus_def promise_all_def exClient_def exNoApm_def
        exEmptyResponse_def getClusterDeprecations_def getCombinedIndexInfos_def
        generalIndexInfos_def object_keys_def apmIndexSet_def)
  have empty: "cluster (upgradeStatus [] ([] :: unit EnrichedDeprecationInfo list)) = []
               \<and> indices (upgradeStatus ([] :: unit EnrichedDeprecationInfo list) []) = []"
    by (simp add: upgradeStatus_def)
  from readyForUpgrade_iff_no_critical [OF run0] empty
  have "readyForUpgrade (upgradeStatus [] ([] :: unit EnrichedDeprecationInfo list))"
    by blast
  with run notReady lvl run0 show ?thesis by blast
qed

section \<open>The index deprecation merger\<close>

text \<open>
  C3. The general portion of the merged list (what \<^verbatim>\<open>getCombinedIndexInfos\<close> builds
  before it appends the application-performance-monitoring warnings) has no entry for
  an index name that is a key of \<open>index_settings\<close> and the index of one of those
  warnings. The exclusion goes by index name: nothing else of the warning matters.
\<close>

theorem general_portion_excludes_apm_indices:
  "\<exists>general.
     generalIndexInfos sys d apm = Inr general
     \<and> getCombinedIndexInfos sys d apm = Inr (general @ apm)
     \<and> (\<forall>k. k \<in> set (object_keys (index_settings d)) \<and> Some k \<in> index ` set apm
            \<longrightarrow> (\<forall>e \<in> set general. index e \<noteq> Some k))"
proof -
  let ?general = "filter (\<lambda>e. \<not> sys (index e))
            (concat (map (\<lambda>k. map (enrich (index ` set apm) k) (rawWarnings d k))
                       (filter (\<lambda>k. Some k \<notin> index ` set apm)
                          (object_keys (index_settings d)))))"
  have g: "generalIndexInfos sys d apm = Inr ?general"
    by (rule generalIndexInfos_eq)
  have c: "getCombinedIndexInfos sys d apm = Inr (?general @ apm)"
    by (rule getCombinedIndexInfos_eq)
  have "\<forall>e \<in> set ?general. index e \<noteq> Some k" if "Some k \<in> index ` set apm" for k
  proof
    fix e assume "e \<in> set ?general"
    then obtain k' where k': "Some k' \<notin> index ` set apm" and "index e = Some k'"
      by (auto simp: enrich_def)
    with that show "index e \<noteq> Some k" by auto
  qed
  with g c show ?thesis by blast
qed

theorem general_portion_excludes_apm_indices_witness:
  "generalIndexInfos startsWithDot exResponse [exApmWarning] = Inr [exIdx1Reindex, exIdx1Fields]
   \<and> getCombinedIndexInfos startsWithDot exResponse [exApmWarning]
       = Inr [exIdx1Reindex, exIdx1Fields, exApmWarning]
   \<and> ''apm-7'' \<in> set (object_keys (index_settings exResponse))
   \<and> Some ''apm-7'' \<in> index ` set [exApmWarning]
   \<and> index exIdx1Reindex \<noteq> Some ''apm-7''
   \<and> index exIdx1Fields \<noteq> Some ''apm-7''"
proof -
  have key: "''apm-7'' \<in> set (object_keys (index_settings exResponse))"
    by (simp add: object_keys_def exResponse_def)
  have apm: "Some ''apm-7'' \<in> index ` set [exApmWarning]"
    by (simp add: exApmWarning_def)
  from general_portion_excludes_apm_indices [of startsWithDot exResponse "[exApmWarning]"]
  obtain general where g: "generalIndexInfos startsWithDot exResponse [exApmWarning] = Inr general"
    and excl: "\<forall>k. k \<in> set (object_keys (index_settings exResponse))
                    \<and> Some k \<in> index ` set [exApmWarning]
                 \<longrightarrow> (\<forall>e \<in> set general. index e \<noteq> Some k)"
    by blast
  from g have general: "general = [exIdx1Reindex, exIdx1Fields]"
    by (simp add: ex_general)
  from excl key apm have "\<forall>e \<in> set general. index e \<noteq> Some ''apm-7''"
    by blast
  then have "index exIdx1Reindex \<noteq> Some ''apm-7'' \<and> index exIdx1Fields \<noteq> Some ''apm-7''"
    by (simp add: general)
  with key apm show ?thesis
    by (simp add: ex_general ex_merged)
qed

text \<open>
  C4, as stated, fails: the claim speaks of every entry of the merged list, and the
  application-performance-monitoring warnings are appended as the lookup returned them.
  In the example run the merged list holds the lookup's warning with \<open>reindex\<close> true,
  though its message does not contain "Index created before".
\<close>

theorem reindex_flag_counterexample:
  "getCombinedIndexInfos startsWithDot exResponse [exApmWarning]
     = Inr [exIdx1Reindex, exIdx1Fields, exApmWarning]
   \<and> reindex exApmWarning = Some True
   \<and> \<not> regexp_test ''Index created before'' (message exApmWarning)"
proof -
  have "reindex exApmWarning = Some True"
    by (simp add: exApmWarning_def)
  moreover have "\<not> regexp_test ''Index created before'' (message exApmWarning)"
    by (simp add: exApmWarning_def regexp_test_def sublist_code(3))
  ultimately show ?thesis
    using ex_merged by blast
qed

text \<open>
  C4, amended. For every entry of the general portion of the merged list (the entries
  built from \<open>index_settings\<close>), \<open>reindex\<close> is true if and only if the message contains
  "Index created before", and \<open>needsDefaultFields\<close> is true if and only if the message
  contains "Number of fields exceeds automatic field expansion limit". The
  application-performance-monitoring warnings follow that portion unchanged, with the
  flags the lookup gave them.
\<close>

theorem general_portion_flags:
  "\<exists>general.
     generalIndexInfos sys d apm = Inr general
     \<and> getCombinedIndexInfos sys d apm = Inr (general @ apm)
     \<and> (\<forall>e \<in> set general.
           (reindex e = Some True
              \<longleftrightarrow> (\<exists>before after. message e = before @ ''Index created before'' @ after))
         \<and> (needsDefaultFields e = Some True
              \<longleftrightarrow> (\<exists>before after. message e =
                     before @ ''Number of fields exceeds automatic field expansion limit''
                       @ after)))"
proof -
  let ?A = "index ` set apm"
  let ?general = "filter (\<lambda>e. \<not> sys (index e))
            (concat (map (\<lambda>k. map (enrich ?A k) (rawWarnings d k))
                       (filter (\<lambda>k. Some k \<notin> ?A) (object_keys (index_settings d)))))"
  have g: "generalIndexInfos sys d apm = Inr ?general"
    by (rule generalIndexInfos_eq)
  have c: "getCombinedIndexInfos sys d apm = Inr (?general @ apm)"
    by (rule getCombinedIndexInfos_eq)
  have flags: "(reindex e = Some True
              \<longleftrightarrow> (\<exists>before after. message e = before @ ''Index created before'' @ after))
         \<and> (needsDefaultFields e = Some True
              \<longleftrightarrow> (\<exists>before after. message e =
                     before @ ''Number of fields exceeds automatic field expansion limit''
                       @ after))"
    if "e \<in> set ?general" for e
  proof -
    from that obtain k r where k: "Some k \<notin> ?A" and e: "e = enrich ?A k r"
      by auto
    show ?thesis
      using k by (simp add: e enrich_def regexp_test_def sublist_def)
  qed
  from g c flags show ?thesis by blast
qed

theorem general_portion_flags_witness:
  "generalIndexInfos startsWithDot exResponse [exApmWarning] = Inr [exIdx1Reindex, exIdx1Fields]
   \<and> reindex exIdx1Reindex = Some True
   \<and> (\<exists>before after. message exIdx1Reindex = before @ ''Index created before'' @ after)
   \<and> needsDefaultFields exIdx1Reindex \<noteq> Some True
   \<and> (\<nexists>before after. message exIdx1Reindex =
          before @ ''Number of fields exceeds automatic field expansion limit'' @ after)"
proof -
  from general_portion_flags [of startsWithDot exResponse "[exApmWarning]"]
  obtain general where g: "generalIndexInfos startsWithDot exResponse [exApmWarning] = Inr general"
    and flags: "\<forall>e \<in> set general.
           (reindex e = Some True
              \<longleftrightarrow> (\<exists>before after. message e = before @ ''Index created before'' @ after))
         \<and> (needsDefaultFields e = Some True
              \<longleftrightarrow> (\<exists>before after. message e =
                     before @ ''Number of fields exceeds automatic field expansion limit''
                       @ after))"
    by blast
  from g have "general = [exIdx1Reindex, exIdx1Fields]"
    by (simp add: ex_general)
  then have "exIdx1Reindex \<in> set general"
    by simp
  with flags have f: "(reindex exIdx1Reindex = Some True
              \<longleftrightarrow> (\<exists>before after. message exIdx1Reindex
                     = before @ ''Index created before'' @ after))
         \<and> (needsDefaultFields exIdx1Reindex = Some True
              \<longleftrightarrow> (\<exists>before after. message exIdx1Reindex =
                     before @ ''Number of fields exceeds automatic field expansion limit''
                       @ after))"
    by blast
  have r: "reindex exIdx1Reindex = Some True"
    and n: "needsDefaultFields exIdx1Reindex \<noteq> Some True"
    by (simp_all add: exIdx1Reindex_def)
  from f r n show ?thesis
    by (simp add: ex_general)
qed

text \<open>
  C5. For a response whose \<open>index_settings\<close> has each key once (as every object has),
  \<^verbatim>\<open>getCombinedIndexInfos\<close> returns the list the specification describes: the warnings
  of the non-apm keys in key order, each index's warnings in their order and enriched,
  the entries of system indices removed, and then all application-performance-monitoring
  warnings, which the system-index filter never sees.
\<close>

theorem getCombinedIndexInfos_refines_spec:
  assumes "distinct (object_keys (index_settings d))"
  shows "getCombinedIndexInfos sys d apm = Inr (mergedIndexList_spec sys d apm)"
proof -
  let ?A = "index ` set apm"
  have raw: "rawWarnings d k = ds" if "(k, ds) \<in> set (index_settings d)" for k ds
    using assms that by (simp add: rawWarnings_def object_get_def object_keys_def)
  have flat: "concat (map (\<lambda>k. map (enrich ?A k) (rawWarnings d k)) (map fst ps)) =
          concat (map (\<lambda>(k, ds). map (enrichedWarning_spec k) ds) ps)"
    if "set ps \<subseteq> set (index_settings d)" and "\<forall>(k, ds) \<in> set ps. Some k \<notin> ?A" for ps
    using that
  proof (induction ps)
    case Nil
    show ?case by simp
  next
    case (Cons p ps)
    obtain k ds where p: "p = (k, ds)" by (cases p)
    from Cons.prems p have "(k, ds) \<in> set (index_settings d)" and "Some k \<notin> ?A"
      by auto
    then have "map (enrich ?A k) (rawWarnings d k) = map (enrichedWarning_spec k) ds"
      by (simp add: raw enrich_def enrichedWarning_spec_def regexp_test_def)
    moreover from Cons.prems Cons.IH
    have "concat (map (\<lambda>k. map (enrich ?A k) (rawWarnings d k)) (map fst ps)) =
          concat (map (\<lambda>(k, ds). map (enrichedWarning_spec k) ds) ps)"
      by simp
    ultimately show ?case by (simp add: p)
  qed
  have keys: "filter (\<lambda>k. Some k \<notin> ?A) (object_keys (index_settings d)) =
          map fst (filter (\<lambda>(k, ds). Some k \<notin> ?A) (index_settings d))"
    by (simp add: object_keys_def filter_map comp_def case_prod_unfold)
  have "concat (map (\<lambda>k. map (enrich ?A k) (rawWarnings d k))
                  (filter (\<lambda>k. Some k \<notin> ?A) (object_keys (index_settings d)))) =
        concat (map (\<lambda>(k, ds). map (enrichedWarning_spec k) ds)
                  (filter (\<lambda>(k, ds). Some k \<notin> ?A) (index_settings d)))"
    unfolding keys by (rule flat) auto
  then show ?thesis
    by (simp only: getCombinedIndexInfos_eq mergedIndexList_spec_def)
qed

theorem getCombinedIndexInfos_refines_spec_witness:
  "distinct (object_keys (index_settings exResponse))
   \<and> getCombinedIndexInfos startsWithDot exResponse [exApmWarning]
       = Inr (mergedIndexList_spec startsWithDot exResponse [exApmWarning])
   \<and> mergedIndexList_spec startsWithDot exResponse [exApmWarning]
       = [exIdx1Reindex, exIdx1Fields, exApmWarning]"
proof -
  have keys: "distinct (object_keys (index_settings exResponse))"
    by (simp add: object_keys_def exResponse_def)
  from getCombinedIndexInfos_refines_spec [OF keys, of startsWithDot "[exApmWarning]"]
  have eq: "getCombinedIndexInfos startsWithDot exResponse [exApmWarning]
       = Inr (mergedIndexList_spec startsWithDot exResponse [exApmWarning])" .
  then have "mergedIndexList_spec startsWithDot exResponse [exApmWarning]
       = [exIdx1Reindex, exIdx1Fields, exApmWarning]"
    by (simp add: ex_merged)
  with keys eq show ?thesis by blast
qed

section \<open>The index-state probe\<close>

text \<open>
  C6, as stated, fails: the names are not made unique. In the example run \<open>idx1\<close> has
  two warnings, and the one invocation of the probe receives its name twice.
\<close>

theorem probe_names_counterexample:
  "probeCalls (fst (getUpgradeAssistantStatus exClient False []))
     = [[Some ''idx1'', Some ''idx1'', Some ''apm-7'']]
   \<and> \<not> distinct [Some ''idx1'', Some ''idx1'', Some ''apm-7'']"
  by (simp add: ex_run probeCalls_firstCalls)

text \<open>
  C6, amended. Once both fetches have succeeded: when the merged index list is not
  empty, the probe is invoked exactly once, with the index names of the merged list's
  entries, one name for each entry in the list's order (a name shared by several entries
  is passed once for each of them); when the merged list is empty, the probe is not
  invoked.
\<close>

theorem probe_invoked_once_with_entry_names:
  assumes "callAsCurrentUser w = Inr d"
    and "getDeprecatedApmIndices w pats = Inr apm"
    and "getCombinedIndexInfos (isSystemIndex w) d apm = Inr merged"
  shows "probeCalls (fst (getUpgradeAssistantStatus w cloud pats)) =
           (if merged = [] then [] else [map index merged])"
  by (simp add: getUpgradeAssistantStatus_fetched [OF assms] probeCalls_firstCalls
      probeCalls_firstCalls_only split: sum.splits)

theorem probe_invoked_once_with_entry_names_witness:
  "callAsCurrentUser exClient = Inr exResponse
   \<and> getDeprecatedApmIndices exClient [] = Inr [exApmWarning]
   \<and> getCombinedIndexInfos (isSystemIndex exClient) exResponse [exApmWarning]
       = Inr [exIdx1Reindex, exIdx1Fields, exApmWarning]
   \<and> probeCalls (fst (getUpgradeAssistantStatus exClient True []))
       = [[Some ''idx1'', Some ''idx1'', Some ''apm-7'']]
   \<and> callAsCurrentUser (exClient\<lparr> callAsCurrentUser := Inr exEmptyResponse,
                                   getDeprecatedApmIndices := exNoApm \<rparr>)
       = Inr exEmptyResponse
   \<and> probeCalls (fst (getUpgradeAssistantStatus
                        (exClient\<lparr> callAsCurrentUser := Inr exEmptyResponse,
                                   getDeprecatedApmIndices := exNoApm \<rparr>) True []))
       = []"
proof -
  have f: "callAsCurrentUser exClient = Inr exResponse"
    and a: "getDeprecatedApmIndices exClient [] = Inr [exApmWarning]"
    and s: "isSystemIndex exClient = startsWithDot"
    by (simp_all add: exClient_def)
  have m: "getCombinedIndexInfos (isSystemIndex exClient) exResponse [exApmWarning]
       = Inr [exIdx1Reindex, exIdx1Fields, exApmWarning]"
    by (simp only: s ex_merged)
  from probe_invoked_once_with_entry_names [OF f a m, of True]
  have p: "probeCalls (fst (getUpgradeAssistantStatus exClient True []))
       = [[Some ''idx1'', Some ''idx1'', Some ''apm-7'']]"
    by (simp add: ex_names del: list.map)
  let ?w = "exClient\<lparr> callAsCurrentUser := Inr exEmptyResponse,
                      getDeprecatedApmIndices := exNoApm \<rparr>"
  have f0: "callAsCurrentUser ?w = Inr exEmptyResponse"
    and a0: "getDeprecatedApmIndices ?w [] = Inr []"
    by (simp_all add: exNoApm_def)
  have m0: "getCombinedIndexInfos (isSystemIndex ?w) exEmptyResponse [] = Inr []"
    by (simp add: getCombinedIndexInfos_eq object_keys_def exEmptyResponse_def)
  from probe_invoked_once_with_entry_names [OF f0 a0 m0, of True]
  have p0: "probeCalls (fst (getUpgradeAssistantStatus ?w True [])) = []"
    by simp
  from f a m p f0 p0 show ?thesis by blast
qed

section \<open>The state-enrichment pass\<close>

text \<open>
  C7. When the fetches and the probe succeed, the returned \<open>indices\<close> hold, for every
  entry, \<open>blockerForReindexing\<close> = "index-closed" if the probe's mapping sends the
  entry's index name to "close", and \<^verbatim>\<open>undefined\<close> otherwise; no other value appears.
  The mapping is read at the entry's \<open>index\<close> as a property key, which for an entry with
  index name \<open>n\<close> is \<open>n\<close>.
\<close>

theorem blocker_is_index_closed_or_undefined:
  assumes "callAsCurrentUser w = Inr d"
    and "getDeprecatedApmIndices w pats = Inr apm"
    and "getCombinedIndexInfos (isSystemIndex w) d apm = Inr merged"
    and "esIndicesStateCheck w (map index merged) = Inr states"
  shows "\<exists>status.
           snd (getUpgradeAssistantStatus w cloud pats) = Inr status
           \<and> (\<forall>e \<in> set (indices status).
                 blockerForReindexing e =
                   (if states (toPropertyKey (index e)) = Some ''close''
                    then Some ''index-closed'' else None))
           \<and> (\<forall>e \<in> set (indices status). \<forall>n. index e = Some n \<longrightarrow>
                 (states n = Some ''close'' \<longrightarrow> blockerForReindexing e = Some ''index-closed'')
               \<and> (states n \<noteq> Some ''close'' \<longrightarrow> blockerForReindexing e = None))"
proof -
  let ?status = "upgradeStatus (map asEnriched (getClusterDeprecations d cloud))
                   (map (setBlockerForReindexing states) merged)"
  have run: "snd (getUpgradeAssistantStatus w cloud pats) = Inr ?status"
    by (rule getUpgradeAssistantStatus_probed [OF assms])
  have ind: "indices ?status = map (setBlockerForReindexing states) merged"
    by (simp add: upgradeStatus_def Let_def)
  have one: "blockerForReindexing e =
                   (if states (toPropertyKey (index e)) = Some ''close''
                    then Some ''index-closed'' else None)"
    if "e \<in> set (indices ?status)" for e
  proof -
    from that obtain e0 where "e = setBlockerForReindexing states e0"
      unfolding ind by auto
    then show ?thesis by (simp add: setBlockerForReindexing_def)
  qed
  then have two: "(states n = Some ''close'' \<longrightarrow> blockerForReindexing e = Some ''index-closed'')
               \<and> (states n \<noteq> Some ''close'' \<longrightarrow> blockerForReindexing e = None)"
    if "e \<in> set (indices ?status)" and "index e = Some n" for e n
    using that by (simp add: toPropertyKey_def)
  from run one two show ?thesis by blast
qed

theorem blocker_is_index_closed_or_undefined_witness:
  "esIndicesStateCheck exClient (map index [exIdx1Reindex, exIdx1Fields, exApmWarning])
     = Inr exIndexStates
   \<and> snd (getUpgradeAssistantStatus exClient False []) = Inr (upgradeStatus exCluster exIndices)
   \<and> exIndexStates ''idx1'' = Some ''close''
   \<and> exIndexStates ''apm-7'' = None
   \<and> map index exIndices = [Some ''idx1'', Some ''idx1'', Some ''apm-7'']
   \<and> map blockerForReindexing (indices (upgradeStatus exCluster exIndices))
       = [Some ''index-closed'', Some ''index-closed'', None]"
proof -
  have f: "callAsCurrentUser exClient = Inr exResponse"
    and a: "getDeprecatedApmIndices exClient [] = Inr [exApmWarning]"
    and s: "isSystemIndex exClient = startsWithDot"
    and p: "esIndicesStateCheck exClient (map index [exIdx1Reindex, exIdx1Fields, exApmWarning])
              = Inr exIndexStates"
    by (simp_all add: exClient_def)
  have m: "getCombinedIndexInfos (isSystemIndex exClient) exResponse [exApmWarning]
       = Inr [exIdx1Reindex, exIdx1Fields, exApmWarning]"
    by (simp only: s ex_merged)
  have run: "snd (getUpgradeAssistantStatus exClient False []) =
               Inr (upgradeStatus exCluster exIndices)"
    by (simp add: ex_run)
  from blocker_is_index_closed_or_undefined [OF f a m p, of False]
  have all: "\<forall>e \<in> set (indices (upgradeStatus exCluster exIndices)).
                 blockerForReindexing e =
                   (if exIndexStates (toPropertyKey (index e)) = Some ''close''
                    then Some ''index-closed'' else None)"
    by (auto simp: run)
  have ind: "indices (upgradeStatus exCluster exIndices) = exIndices"
    by (simp add: upgradeStatus_def)
  have names: "map index exIndices = [Some ''idx1'', Some ''idx1'', Some ''apm-7'']"
    by (simp add: exIndices_def exIdx1Reindex_def exIdx1Fields_def exApmWarning_def)
  have st: "exIndexStates ''idx1'' = Some ''close''" "exIndexStates ''apm-7'' = None"
    by (simp_all add: exIndexStates_def)
  from all have "map blockerForReindexing (indices (upgradeStatus exCluster exIndices)) =
      map (\<lambda>e. if exIndexStates (toPropertyKey (index e)) = Some ''close''
                then Some ''index-closed'' else None)
        (indices (upgradeStatus exCluster exIndices))"
    by (simp only: map_eq_conv)
  also have "\<dots> = map (\<lambda>k. if exIndexStates (toPropertyKey k) = Some ''close''
                then Some ''index-closed'' else None) (map index exIndices)"
    by (simp add: ind comp_def)
  also have "\<dots> = [Some ''index-closed'', Some ''index-closed'', None]"
    by (simp add: names toPropertyKey_def st)
  finally have "map blockerForReindexing (indices (upgradeStatus exCluster exIndices))
       = [Some ''index-closed'', Some ''index-closed'', None]" .
  with p run st names show ?thesis by blast
qed

text \<open>
  C8. The state-enrichment pass changes nothing but \<open>blockerForReindexing\<close>: the
  returned \<open>indices\<close> and the merged list are the same list once that field is erased,
  so the length, the order and the fields \<open>level\<close>, \<open>message\<close>, the context, \<open>index\<close>,
  \<open>reindex\<close> and \<open>needsDefaultFields\<close> of every entry are as before.
\<close>

theorem enrichment_changes_blocker_only:
  assumes "callAsCurrentUser w = Inr d"
    and "getDeprecatedApmIndices w pats = Inr apm"
    and "getCombinedIndexInfos (isSystemIndex w) d apm = Inr merged"
    and "esIndicesStateCheck w (map index merged) = Inr states"
  shows "\<exists>status.
           snd (getUpgradeAssistantStatus w cloud pats) = Inr status
           \<and> map (\<lambda>e. e\<lparr> blockerForReindexing := None \<rparr>) (indices status)
               = map (\<lambda>e. e\<lparr> blockerForReindexing := None \<rparr>) merged
           \<and> length (indices status) = length merged
           \<and> map level (indices status) = map level merged
           \<and> map message (indices status) = map message merged
           \<and> map details (indices status) = map details merged
           \<and> map index (indices status) = map index merged
           \<and> map reindex (indices status) = map reindex merged
           \<and> map needsDefaultFields (indices status) = map needsDefaultFields merged"
proof -
  let ?status = "upgradeStatus (map asEnriched (getClusterDeprecations d cloud))
                   (map (setBlockerForReindexing states) merged)"
  have run: "snd (getUpgradeAssistantStatus w cloud pats) = Inr ?status"
    by (rule getUpgradeAssistantStatus_probed [OF assms])
  have ind: "indices ?status = map (setBlockerForReindexing states) merged"
    by (simp add: upgradeStatus_def Let_def)
  have "map (\<lambda>e. e\<lparr> blockerForReindexing := None \<rparr>) (indices ?status)
               = map (\<lambda>e. e\<lparr> blockerForReindexing := None \<rparr>) merged"
    and "length (indices ?status) = length merged"
    and "map level (indices ?status) = map level merged"
    and "map message (indices ?status) = map message merged"
    and "map details (indices ?status) = map details merged"
    and "map index (indices ?status) = map index merged"
    and "map reindex (indices ?status) = map reindex merged"
    and "map needsDefaultFields (indices ?status) = map needsDefaultFields merged"
    by (simp_all add: ind setBlockerForReindexing_def comp_def)
  with run show ?thesis by blast
qed

theorem enrichment_changes_blocker_only_witness:
  "esIndicesStateCheck exClient (map index [exIdx1Reindex, exIdx1Fields, exApmWarning])
     = Inr exIndexStates
   \<and> snd (getUpgradeAssistantStatus exClient False []) = Inr (upgradeStatus exCluster exIndices)
   \<and> length (indices (upgradeStatus exCluster exIndices)) = 3
   \<and> map message (indices (upgradeStatus exCluster exIndices))
       = [''Index created before 7.0'',
          ''Number of fields exceeds automatic field expansion limit of 1024'',
          ''APM index requires conversion to 7.x format'']
   \<and> map reindex (indices (upgradeStatus exCluster exIndices))
       = [Some True, Some False, Some True]"
proof -
  have f: "callAsCurrentUser exClient = Inr exResponse"
    and a: "getDeprecatedApmIndices exClient [] = Inr [exApmWarning]"
    and s: "isSystemIndex exClient = startsWithDot"
    and p: "esIndicesStateCheck exClient (map index [exIdx1Reindex, exIdx1Fields, exApmWarning])
              = Inr exIndexStates"
    by (simp_all add: exClient_def)
  have m: "getCombinedIndexInfos (isSystemIndex exClient) exResponse [exApmWarning]
       = Inr [exIdx1Reindex, exIdx1Fields, exApmWarning]"
    by (simp only: s ex_merged)
  have run: "snd (getUpgradeAssistantStatus exClient False []) =
               Inr (upgradeStatus exCluster exIndices)"
    by (simp add: ex_run)
  from enrichment_changes_blocker_only [OF f a m p, of False]
  have "length (indices (upgradeStatus exCluster exIndices))
          = length [exIdx1Reindex, exIdx1Fields, exApmWarning]"
    and "map message (indices (upgradeStatus exCluster exIndices))
          = map message [exIdx1Reindex, exIdx1Fields, exApmWarning]"
    and "map reindex (indices (upgradeStatus exCluster exIndices))
          = map reindex [exIdx1Reindex, exIdx1Fields, exApmWarning]"
    by (auto simp: run)
  then have "length (indices (upgradeStatus exCluster exIndices)) = 3"
    and "map message (indices (upgradeStatus exCluster exIndices))
       = [''Index created before 7.0'',
          ''Number of fields exceeds automatic field expansion limit of 1024'',
          ''APM index requires conversion to 7.x format'']"
    and "map reindex (indices (upgradeStatus exCluster exIndices))
       = [Some True, Some False, Some True]"
    by (simp_all add: exIdx1Reindex_def exIdx1Fields_def exApmWarning_def)
  with p run show ?thesis by blast
qed

text \<open>
  C10. The pass assigns \<open>blockerForReindexing\<close> on every entry of the merged list, the
  application-performance-monitoring warnings included: each of them, at its place after
  the general portion, gets the value the probe's mapping decides, whatever value it
  arrived with. An entry whose index name the mapping does not contain gets
  \<^verbatim>\<open>undefined\<close>.
\<close>

theorem blocker_assigned_on_every_entry:
  assumes "callAsCurrentUser w = Inr d"
    and "getDeprecatedApmIndices w pats = Inr apm"
    and "generalIndexInfos (isSystemIndex w) d apm = Inr general"
    and "esIndicesStateCheck w (map index (general @ apm)) = Inr states"
  shows "\<exists>status.
           snd (getUpgradeAssistantStatus w cloud pats) = Inr status
           \<and> length (indices status) = length general + length apm
           \<and> (\<forall>j < length apm.
                 index (indices status ! (length general + j)) = index (apm ! j)
               \<and> blockerForReindexing (indices status ! (length general + j)) =
                   (if states (toPropertyKey (index (apm ! j))) = Some ''close''
                    then Some ''index-closed'' else None))
           \<and> (\<forall>e \<in> set (indices status).
                 states (toPropertyKey (index e)) = None \<longrightarrow> blockerForReindexing e = None)"
proof -
  define status where
    "status = upgradeStatus (map asEnriched (getClusterDeprecations d cloud))
                (map (setBlockerForReindexing states) (general @ apm))"
  have m: "getCombinedIndexInfos (isSystemIndex w) d apm = Inr (general @ apm)"
    by (simp add: getCombinedIndexInfos_def assms(3))
  have run: "snd (getUpgradeAssistantStatus w cloud pats) = Inr status"
    unfolding status_def by (rule getUpgradeAssistantStatus_probed [OF assms(1,2) m assms(4)])
  have ind: "indices status =
      map (setBlockerForReindexing states) general @ map (setBlockerForReindexing states) apm"
    by (simp add: status_def upgradeStatus_def Let_def)
  have len: "length (indices status) = length general + length apm"
    by (simp add: ind)
  have at: "indices status ! (length general + j) = setBlockerForReindexing states (apm ! j)"
    if "j < length apm" for j
    using that by (simp add: ind nth_append)
  have apmEntries: "index (indices status ! (length general + j)) = index (apm ! j)
               \<and> blockerForReindexing (indices status ! (length general + j)) =
                   (if states (toPropertyKey (index (apm ! j))) = Some ''close''
                    then Some ''index-closed'' else None)"
    if "j < length apm" for j
    by (simp add: at [OF that] setBlockerForReindexing_def)
  have missing: "blockerForReindexing e = None"
    if "e \<in> set (indices status)" and "states (toPropertyKey (index e)) = None" for e
  proof -
    from that(1) obtain e0 where e: "e = setBlockerForReindexing states e0"
      unfolding ind by auto
    from that(2) show ?thesis
      by (simp add: e setBlockerForReindexing_def)
  qed
  from run len apmEntries missing show ?thesis by blast
qed

theorem blocker_assigned_on_every_entry_witness:
  "generalIndexInfos (isSystemIndex exClient) exResponse [exApmWarning]
     = Inr [exIdx1Reindex, exIdx1Fields]
   \<and> esIndicesStateCheck exClient (map index ([exIdx1Reindex, exIdx1Fields] @ [exApmWarning]))
       = Inr exIndexStates
   \<and> snd (getUpgradeAssistantStatus exClient False []) = Inr (upgradeStatus exCluster exIndices)
   \<and> blockerForReindexing exApmWarning = Some ''index-closed''
   \<and> exIndexStates (toPropertyKey (index exApmWarning)) = None
   \<and> index (indices (upgradeStatus exCluster exIndices) ! 2) = Some ''apm-7''
   \<and> blockerForReindexing (indices (upgradeStatus exCluster exIndices) ! 2) = None"
proof -
  have f: "callAsCurrentUser exClient = Inr exResponse"
    and a: "getDeprecatedApmIndices exClient [] = Inr [exApmWarning]"
    and s: "isSystemIndex exClient = startsWithDot"
    and p: "esIndicesStateCheck exClient
              (map index ([exIdx1Reindex, exIdx1Fields] @ [exApmWarning])) = Inr exIndexStates"
    by (simp_all add: exClient_def)
  have g: "generalIndexInfos (isSystemIndex exClient) exResponse [exApmWarning]
     = Inr [exIdx1Reindex, exIdx1Fields]"
    by (simp only: s ex_general)
  have run: "snd (getUpgradeAssistantStatus exClient False []) =
               Inr (upgradeStatus exCluster exIndices)"
    by (simp add: ex_run)
  have before: "blockerForReindexing exApmWarning = Some ''index-closed''"
    and key: "exIndexStates (toPropertyKey (index exApmWarning)) = None"
    by (simp_all add: exApmWarning_def toPropertyKey_def exIndexStates_def)
  from blocker_assigned_on_every_entry [OF f a g p, of False]
  have all: "\<forall>j < length [exApmWarning].
          index (indices (upgradeStatus exCluster exIndices)
                   ! (length [exIdx1Reindex, exIdx1Fields] + j)) = index ([exApmWarning] ! j)
        \<and> blockerForReindexing (indices (upgradeStatus exCluster exIndices)
                   ! (length [exIdx1Reindex, exIdx1Fields] + j)) =
            (if exIndexStates (toPropertyKey (index ([exApmWarning] ! j))) = Some ''close''
             then Some ''index-closed'' else None)"
    by (auto simp: run)
  have zero: "(0::nat) < length [exApmWarning]"
    by simp
  have two: "length [exIdx1Reindex, exIdx1Fields] + 0 = (2::nat)"
    and apm0: "[exApmWarning] ! 0 = exApmWarning"
    by simp_all
  from all zero
  have "index (indices (upgradeStatus exCluster exIndices)
                   ! (length [exIdx1Reindex, exIdx1Fields] + 0)) = index ([exApmWarning] ! 0)
        \<and> blockerForReindexing (indices (upgradeStatus exCluster exIndices)
                   ! (length [exIdx1Reindex, exIdx1Fields] + 0)) =
            (if exIndexStates (toPropertyKey (index ([exApmWarning] ! 0))) = Some ''close''
             then Some ''index-closed'' else None)"
    by blast
  then have "index (indices (upgradeStatus exCluster exIndices) ! 2) = index exApmWarning
        \<and> blockerForReindexing (indices (upgradeStatus exCluster exIndices) ! 2) =
            (if exIndexStates (toPropertyKey (index exApmWarning)) = Some ''close''
             then Some ''index-closed'' else None)"
    by (simp only: two apm0)
  then have "index (indices (upgradeStatus exCluster exIndices) ! 2) = Some ''apm-7''
        \<and> blockerForReindexing (indices (upgradeStatus exCluster exIndices) ! 2) = None"
    by (simp add: key) (simp add: exApmWarning_def)
  with g p run before key show ?thesis by blast
qed

section \<open>Failures\<close>

text \<open>
  C9. A failure of a collaborator is the outcome of the operation, as it is: when the
  deprecation fetch or the application-performance-monitoring lookup is rejected, the
  operation fails with that rejection after the two calls it starts with (when both are
  rejected, with the one \<^verbatim>\<open>Promise.all\<close> observes first); when the probe is invoked
  and rejected, the operation fails with that rejection after that one invocation. No
  collaborator is called again, the error is not wrapped, and no status is returned.
\<close>

theorem collaborator_failure_propagates:
  "(callAsCurrentUser w = Inl e \<and> getDeprecatedApmIndices w pats = Inr apm
      \<longrightarrow> getUpgradeAssistantStatus w cloud pats = (firstCalls pats, Inl e))
   \<and> (callAsCurrentUser w = Inr d \<and> getDeprecatedApmIndices w pats = Inl e
      \<longrightarrow> getUpgradeAssistantStatus w cloud pats = (firstCalls pats, Inl e))
   \<and> (callAsCurrentUser w = Inl e \<and> getDeprecatedApmIndices w pats = Inl e'
      \<longrightarrow> getUpgradeAssistantStatus w cloud pats
            = (firstCalls pats, Inl (if apmRejectsFirst w then e' else e)))
   \<and> (callAsCurrentUser w = Inr d \<and> getDeprecatedApmIndices w pats = Inr apm
       \<and> getCombinedIndexInfos (isSystemIndex w) d apm = Inr merged \<and> merged \<noteq> []
       \<and> esIndicesStateCheck w (map index merged) = Inl e
      \<longrightarrow> getUpgradeAssistantStatus w cloud pats
            = (firstCalls pats @ [IndicesStateCheck (map index merged)], Inl e))"
proof -
  have fetch: "getUpgradeAssistantStatus w cloud pats = (firstCalls pats, Inl e)"
    if "callAsCurrentUser w = Inl e" and "getDeprecatedApmIndices w pats = Inr apm"
    using that by (simp add: getUpgradeAssistantStatus_def promise_all_def firstCalls_def)
  have lookup: "getUpgradeAssistantStatus w cloud pats = (firstCalls pats, Inl e)"
    if "callAsCurrentUser w = Inr d" and "getDeprecatedApmIndices w pats = Inl e"
    using that by (simp add: getUpgradeAssistantStatus_def promise_all_def firstCalls_def)
  have both: "getUpgradeAssistantStatus w cloud pats
            = (firstCalls pats, Inl (if apmRejectsFirst w then e' else e))"
    if "callAsCurrentUser w = Inl e" and "getDeprecatedApmIndices w pats = Inl e'"
    using that by (simp add: getUpgradeAssistantStatus_def promise_all_def firstCalls_def)
  have probe: "getUpgradeAssistantStatus w cloud pats
            = (firstCalls pats @ [IndicesStateCheck (map index merged)], Inl e)"
    if "callAsCurrentUser w = Inr d" and "getDeprecatedApmIndices w pats = Inr apm"
      and "getCombinedIndexInfos (isSystemIndex w) d apm = Inr merged" and "merged \<noteq> []"
      and "esIndicesStateCheck w (map index merged) = Inl e"
    using that(4,5) by (simp add: getUpgradeAssistantStatus_fetched [OF that(1-3)])
  from fetch lookup both probe show ?thesis by blast
qed

theorem collaborator_failure_propagates_witness:
  "getUpgradeAssistantStatus (exClient\<lparr> callAsCurrentUser := Inl (Rejected ''timeout'') \<rparr>)
       False []
     = (firstCalls [], Inl (Rejected ''timeout''))
   \<and> getUpgradeAssistantStatus (exClient\<lparr> getDeprecatedApmIndices := exApmFails \<rparr>) False []
     = (firstCalls [], Inl (Rejected ''index_not_found_exception''))
   \<and> getUpgradeAssistantStatus
       (exClient\<lparr> callAsCurrentUser := Inl (Rejected ''timeout''),
                  getDeprecatedApmIndices := exApmFails, apmRejectsFirst := True \<rparr>) False []
     = (firstCalls [], Inl (Rejected ''index_not_found_exception''))
   \<and> getUpgradeAssistantStatus (exClient\<lparr> esIndicesStateCheck := exProbeFails \<rparr>) False []
     = (firstCalls [] @ [IndicesStateCheck [Some ''idx1'', Some ''idx1'', Some ''apm-7'']],
        Inl (Rejected ''security_exception''))"
proof -
  let ?w1 = "exClient\<lparr> callAsCurrentUser := Inl (Rejected ''timeout'') \<rparr>"
  let ?w2 = "exClient\<lparr> getDeprecatedApmIndices := exApmFails \<rparr>"
  let ?w3 = "exClient\<lparr> callAsCurrentUser := Inl (Rejected ''timeout''),
                       getDeprecatedApmIndices := exApmFails, apmRejectsFirst := True \<rparr>"
  let ?w4 = "exClient\<lparr> esIndicesStateCheck := exProbeFails \<rparr>"
  have h1: "callAsCurrentUser ?w1 = Inl (Rejected ''timeout'')
            \<and> getDeprecatedApmIndices ?w1 [] = Inr [exApmWarning]"
    by (simp add: exClient_def)
  have h2: "callAsCurrentUser ?w2 = Inr exResponse
            \<and> getDeprecatedApmIndices ?w2 [] = Inl (Rejected ''index_not_found_exception'')"
    by (simp add: exClient_def exApmFails_def)
  have h3: "callAsCurrentUser ?w3 = Inl (Rejected ''timeout'')
            \<and> getDeprecatedApmIndices ?w3 [] = Inl (Rejected ''index_not_found_exception'')"
    and first: "apmRejectsFirst ?w3"
    by (simp_all add: exApmFails_def)
  have h4: "callAsCurrentUser ?w4 = Inr exResponse
            \<and> getDeprecatedApmIndices ?w4 [] = Inr [exApmWarning]
            \<and> getCombinedIndexInfos (isSystemIndex ?w4) exResponse [exApmWarning]
                = Inr [exIdx1Reindex, exIdx1Fields, exApmWarning]
            \<and> [exIdx1Reindex, exIdx1Fields, exApmWarning] \<noteq> []
            \<and> esIndicesStateCheck ?w4 (map index [exIdx1Reindex, exIdx1Fields, exApmWarning])
                = Inl (Rejected ''security_exception'')"
    by (simp add: exClient_def exProbeFails_def ex_merged del: list.map)
  from collaborator_failure_propagates
         [of ?w1 "Rejected ''timeout''" "[]" "[exApmWarning]" False] h1
  have r1: "getUpgradeAssistantStatus ?w1 False [] = (firstCalls [], Inl (Rejected ''timeout''))"
    by blast
  from collaborator_failure_propagates
         [of ?w2 "Rejected ''index_not_found_exception''" "[]" _ False exResponse] h2
  have r2: "getUpgradeAssistantStatus ?w2 False []
              = (firstCalls [], Inl (Rejected ''index_not_found_exception''))"
    by blast
  from collaborator_failure_propagates
         [of ?w3 "Rejected ''timeout''" "[]" _ False _ "Rejected ''index_not_found_exception''"]
       h3
  have "getUpgradeAssistantStatus ?w3 False []
          = (firstCalls [], Inl (if apmRejectsFirst ?w3
                                 then Rejected ''index_not_found_exception''
                                 else Rejected ''timeout''))"
    by blast
  with first have r3: "getUpgradeAssistantStatus ?w3 False []
              = (firstCalls [], Inl (Rejected ''index_not_found_exception''))"
    by simp
  from collaborator_failure_propagates
         [of ?w4 "Rejected ''security_exception''" "[]" "[exApmWarning]" False exResponse _
            "[exIdx1Reindex, exIdx1Fields, exApmWarning]"] h4
  have "getUpgradeAssistantStatus ?w4 False []
          = (firstCalls [] @ [IndicesStateCheck
                                (map index [exIdx1Reindex, exIdx1Fields, exApmWarning])],
             Inl (Rejected ''security_exception''))"
    by blast
  then have r4: "getUpgradeAssistantStatus ?w4 False []
     = (firstCalls [] @ [IndicesStateCheck [Some ''idx1'', Some ''idx1'', Some ''apm-7'']],
        Inl (Rejected ''security_exception''))"
    by (simp only: ex_names)
  from r1 r2 r3 r4 show ?thesis by blast
qed

end
